theory Spec2Isabelle
  imports Complex_Main "HOL-Library.AList"
begin

section \<open>Python strings\<close>

text \<open>
  \<^verbatim>\<open>device_utils.py\<close> is Python 2: a \<^verbatim>\<open>str\<close> is a byte string, modelled as
  \<^typ>\<open>string\<close>, and \<^verbatim>\<open>len\<close> counts bytes.
\<close>

abbreviation LF :: char where "LF \<equiv> CHR 0x0A"
abbreviation CR :: char where "CR \<equiv> CHR 0x0D"
abbreviation SP :: char where "SP \<equiv> CHR 0x20"

text \<open>
  \<^verbatim>\<open>str.splitlines()\<close> of a byte string: a line ends at \<^verbatim>\<open>\n\<close>, \<^verbatim>\<open>\r\<close> or
  \<^verbatim>\<open>\r\n\<close>; the line ends are dropped, and text after the last line end is a line
  only if it is not empty.
\<close>

fun splitlines_from :: "string \<Rightarrow> string \<Rightarrow> string list" where
  "splitlines_from cur [] = (if cur = [] then [] else [cur])"
| "splitlines_from cur (c # cs) =
     (if c = LF then cur # splitlines_from [] cs
      else if c = CR then
        (case cs of
           [] \<Rightarrow> cur # splitlines_from [] cs
         | d # ds \<Rightarrow>
             if d = LF then cur # splitlines_from [] ds else cur # splitlines_from [] cs)
      else splitlines_from (cur @ [c]) cs)"

definition splitlines :: "string \<Rightarrow> string list" where
  "splitlines s = splitlines_from [] s"

text \<open>The whitespace of \<^verbatim>\<open>str.split()\<close> and of the regular expressions' \<^verbatim>\<open>\s\<close>.\<close>

definition is_space :: "char \<Rightarrow> bool" where
  "is_space c =
     (c = SP \<or> c = CHR 0x09 \<or> c = LF \<or> c = CHR 0x0B \<or> c = CHR 0x0C \<or> c = CR)"

text \<open>\<^verbatim>\<open>str.split()\<close> with no argument: the maximal runs of non-whitespace.\<close>

fun split_from :: "string \<Rightarrow> string \<Rightarrow> string list" where
  "split_from cur [] = (if cur = [] then [] else [cur])"
| "split_from cur (c # cs) =
     (if is_space c then (if cur = [] then split_from [] cs else cur # split_from [] cs)
      else split_from (cur @ [c]) cs)"

definition split_ws :: "string \<Rightarrow> string list" where
  "split_ws s = split_from [] s"

text \<open>\<^verbatim>\<open>sep.join(xs)\<close>.\<close>

fun join :: "string \<Rightarrow> string list \<Rightarrow> string" where
  "join sep [] = []"
| "join sep [x] = x"
| "join sep (x # y # ys) = x @ sep @ join sep (y # ys)"

text \<open>\<^verbatim>\<open>needle in hay\<close> on strings.\<close>

definition startswith :: "string \<Rightarrow> string \<Rightarrow> bool" where
  "startswith s p = (take (length p) s = p)"

fun contains :: "string \<Rightarrow> string \<Rightarrow> bool" where
  "contains [] needle = (needle = [])"
| "contains (c # cs) needle = (startswith (c # cs) needle \<or> contains cs needle)"

text \<open>\<^verbatim>\<open>'%d' % n\<close> and \<^verbatim>\<open>int(s)\<close> on a string of decimal digits.\<close>

fun str_nat :: "nat \<Rightarrow> string" where
  "str_nat n =
     (if n < 10 then [''0123456789'' ! n] else str_nat (n div 10) @ [''0123456789'' ! (n mod 10)])"

definition str_int :: "int \<Rightarrow> string" where
  "str_int i = (if i < 0 then CHR ''-'' # str_nat (nat (- i)) else str_nat (nat i))"

definition is_digit :: "char \<Rightarrow> bool" where
  "is_digit c = (c \<in> set ''0123456789'')"



text \<open>
  \<^verbatim>\<open>_JoinLines\<close>: every line followed by a line feed, the last one too.
\<close>

definition JoinLines :: "string list \<Rightarrow> string" where
  "JoinLines lines = concat (map (\<lambda>line. line @ [LF]) lines)"

section \<open>Errors, the session state and the external collaborators\<close>

text \<open>
  The exceptions the code raises or lets through. Modelled from the spec:
  \<^verbatim>\<open>pylib/device/device_errors.py\<close> is missing; section 7 of the spec has one kind
  "command failure" for a command that exited nonzero and for invalid single-line output,
  and the code catches \<^verbatim>\<open>CommandFailedError\<close> around a call that raises
  \<^verbatim>\<open>AdbCommandFailedError\<close>, so the latter is a subclass of the former.
  \<^verbatim>\<open>AdbCommandFailedError\<close> carries the partial output of the command;
  \<^verbatim>\<open>CommandFailedError\<close> carries its message, as the format string and the lines
  formatted into it.
\<close>

datatype error =
    AdbCommandFailedError string
  | CommandFailedError string "string list"
  | CommandTimeoutError
  | DeviceUnreachableError
  | KeyError string
  | TypeError
  | IndexError
  | HostError string

fun is_AdbCommandFailedError :: "error \<Rightarrow> bool" where
  "is_AdbCommandFailedError (AdbCommandFailedError out) = True"
| "is_AdbCommandFailedError e = False"

fun is_CommandFailedError :: "error \<Rightarrow> bool" where
  "is_CommandFailedError (AdbCommandFailedError out) = True"
| "is_CommandFailedError (CommandFailedError msg ls) = True"
| "is_CommandFailedError e = False"

text \<open>A value of \<^verbatim>\<open>self._cache\<close>, and Python's truth value of it.\<close>

datatype cval = CBool bool | CStr string

fun truthy :: "cval \<Rightarrow> bool" where
  "truthy (CBool b) = b"
| "truthy (CStr s) = (s \<noteq> [])"

text \<open>A record of \<^verbatim>\<open>md5sum\<close>: the named tuple \<^verbatim>\<open>HashAndPath(hash, path)\<close>.\<close>

type_synonym hash_and_path = "string \<times> string"

text \<open>
  The calls made on \<^verbatim>\<open>self.adb\<close> and on the device's temporary files, in order: the
  session's observable effect on the device.
\<close>

datatype adb_call =
    CallShell string
  | CallPush string string
  | CallPull string string
  | CallRoot
  | CallWaitForDevice
  | CallGetState
  | CallTempFile string
  | CallTempClose string

text \<open>
  The state of a \<^verbatim>\<open>DeviceUtils\<close> object: \<^verbatim>\<open>_cache\<close>, \<^verbatim>\<open>_commands_installed\<close>, the
  world outside the object (the device and the host's file system, of any type \<open>'w\<close>) and
  the calls made so far. Timeouts and retries are real time and are not modelled: a
  primitive returns, possibly with \<^const>\<open>CommandTimeoutError\<close>.
\<close>

record 'w device_utils =
  cache :: "string \<rightharpoonup> cval"
  commands_installed :: "bool option"
  world :: 'w
  calls :: "adb_call list"

text \<open>
  The collaborators whose code is not part of \<^verbatim>\<open>device_utils.py\<close>, taken as
  parameters: \<^verbatim>\<open>adb_wrapper.AdbWrapper\<close>, \<^verbatim>\<open>cmd_helper\<close>,
  \<^verbatim>\<open>device_temp_file.DeviceTempFile\<close> (entering it gives \<^verbatim>\<open>name\<close> and
  \<^verbatim>\<open>name_quoted\<close>), the host's \<^verbatim>\<open>tempfile\<close>, \<^verbatim>\<open>open\<close>, \<^verbatim>\<open>shutil\<close>,
  \<^verbatim>\<open>os.path\<close> and \<^verbatim>\<open>os.walk\<close>, \<^verbatim>\<open>host_utils\<close>, \<^verbatim>\<open>md5sum\<close>,
  \<^verbatim>\<open>install_commands\<close>, \<^verbatim>\<open>zip_utils\<close> and \<^verbatim>\<open>time.sleep\<close>.
\<close>

record 'w externals =
  adb_Shell :: "string \<Rightarrow> 'w \<Rightarrow> (error + string) \<times> 'w"
  adb_Push :: "string \<Rightarrow> string \<Rightarrow> 'w \<Rightarrow> (error + unit) \<times> 'w"
  adb_Pull :: "string \<Rightarrow> string \<Rightarrow> 'w \<Rightarrow> (error + unit) \<times> 'w"
  adb_Root :: "'w \<Rightarrow> (error + unit) \<times> 'w"
  adb_WaitForDevice :: "'w \<Rightarrow> (error + unit) \<times> 'w"
  adb_GetState :: "'w \<Rightarrow> (error + string) \<times> 'w"
  SingleQuote :: "string \<Rightarrow> string"
  DoubleQuote :: "string \<Rightarrow> string"
  DeviceTempFile_enter :: "string \<Rightarrow> 'w \<Rightarrow> (error + string \<times> string) \<times> 'w"
  DeviceTempFile_close :: "string \<Rightarrow> 'w \<Rightarrow> (error + unit) \<times> 'w"
  NamedTemporaryFile :: "string \<Rightarrow> 'w \<Rightarrow> string \<times> 'w"
  host_write :: "string \<Rightarrow> string \<Rightarrow> 'w \<Rightarrow> 'w"
  host_close :: "string \<Rightarrow> 'w \<Rightarrow> 'w"
  mkdtemp :: "'w \<Rightarrow> string \<times> 'w"
  host_read :: "string \<Rightarrow> 'w \<Rightarrow> error + string"
  rmtree :: "string \<Rightarrow> 'w \<Rightarrow> 'w"
  os_path_realpath :: "string \<Rightarrow> 'w \<Rightarrow> string"
  os_path_isfile :: "string \<Rightarrow> 'w \<Rightarrow> bool"
  os_path_isdir :: "string \<Rightarrow> 'w \<Rightarrow> bool"
  os_path_relpath :: "string \<Rightarrow> string \<Rightarrow> string"
  os_walk_file_count :: "string \<Rightarrow> 'w \<Rightarrow> nat"
  GetRecursiveDiskUsage :: "string \<Rightarrow> 'w \<Rightarrow> nat"
  CalculateHostMd5Sums :: "string list \<Rightarrow> 'w \<Rightarrow> error + hash_and_path list"
  CalculateDeviceMd5Sums :: "string list \<Rightarrow> 'w \<Rightarrow> (error + hash_and_path list) \<times> 'w"
  install_commands_Installed :: "'w \<Rightarrow> (error + bool) \<times> 'w"
  install_commands_InstallCommands :: "'w \<Rightarrow> (error + unit) \<times> 'w"
  BIN_DIR :: string
  CreateDeviceZip :: "string \<Rightarrow> (string \<times> string) list \<Rightarrow> 'w \<Rightarrow> 'w"
  time_sleep :: "'w \<Rightarrow> 'w"

section \<open>Running code on the session\<close>

text \<open>
  A method of \<^verbatim>\<open>DeviceUtils\<close> takes the state and returns the exception raised
  (\<open>Inl\<close>) or its result (\<open>Inr\<close>), with the state it leaves.
\<close>

type_synonym ('w, 'a) dev = "'w device_utils \<Rightarrow> (error + 'a) \<times> 'w device_utils"

definition returnM :: "'a \<Rightarrow> ('w, 'a) dev" where
  "returnM x = (\<lambda>s. (Inr x, s))"

definition raiseM :: "error \<Rightarrow> ('w, 'a) dev" where
  "raiseM e = (\<lambda>s. (Inl e, s))"

definition bindM :: "('w, 'a) dev \<Rightarrow> ('a \<Rightarrow> ('w, 'b) dev) \<Rightarrow> ('w, 'b) dev" where
  "bindM m f = (\<lambda>s. case m s of (Inl e, s') \<Rightarrow> (Inl e, s') | (Inr x, s') \<Rightarrow> f x s')"

text \<open>\<^verbatim>\<open>try: m except E as e: h(e)\<close>, where \<open>caught\<close> tells the errors of class \<open>E\<close>.\<close>

definition try_except ::
  "('w, 'a) dev \<Rightarrow> (error \<Rightarrow> bool) \<Rightarrow> (error \<Rightarrow> ('w, 'a) dev) \<Rightarrow> ('w, 'a) dev" where
  "try_except m caught h =
     (\<lambda>s. case m s of
        (Inl e, s') \<Rightarrow> if caught e then h e s' else (Inl e, s')
      | (Inr x, s') \<Rightarrow> (Inr x, s'))"

text \<open>
  \<^verbatim>\<open>try: m finally: fin\<close>: \<open>fin\<close> runs whatever \<open>m\<close> did, and an exception of
  \<open>fin\<close> replaces the outcome of \<open>m\<close>.
\<close>

definition try_finally :: "('w, 'a) dev \<Rightarrow> ('w, unit) dev \<Rightarrow> ('w, 'a) dev" where
  "try_finally m fin =
     (\<lambda>s. case m s of (r, s') \<Rightarrow>
        (case fin s' of (Inl e, s'') \<Rightarrow> (Inl e, s'') | (Inr u, s'') \<Rightarrow> (r, s'')))"

text \<open>A call on \<^verbatim>\<open>self.adb\<close> changes the world and is recorded; a host call is not.\<close>

definition adb :: "adb_call \<Rightarrow> ('w \<Rightarrow> (error + 'a) \<times> 'w) \<Rightarrow> ('w, 'a) dev" where
  "adb c f =
     (\<lambda>s. case f (world s) of (r, w') \<Rightarrow> (r, s\<lparr>world := w', calls := calls s @ [c]\<rparr>))"

definition host :: "('w \<Rightarrow> 'a \<times> 'w) \<Rightarrow> ('w, 'a) dev" where
  "host f = (\<lambda>s. case f (world s) of (x, w') \<Rightarrow> (Inr x, s\<lparr>world := w'\<rparr>))"

definition host_do :: "('w \<Rightarrow> 'w) \<Rightarrow> ('w, unit) dev" where
  "host_do f = (\<lambda>s. (Inr (), s\<lparr>world := f (world s)\<rparr>))"

definition host_get :: "('w \<Rightarrow> error + 'a) \<Rightarrow> ('w, 'a) dev" where
  "host_get f = (\<lambda>s. (f (world s), s))"

definition Shell :: "'w externals \<Rightarrow> string \<Rightarrow> ('w, string) dev" where
  "Shell ext cmd = adb (CallShell cmd) (adb_Shell ext cmd)"

definition Push :: "'w externals \<Rightarrow> string \<Rightarrow> string \<Rightarrow> ('w, unit) dev" where
  "Push ext h d = adb (CallPush h d) (adb_Push ext h d)"

definition Pull :: "'w externals \<Rightarrow> string \<Rightarrow> string \<Rightarrow> ('w, unit) dev" where
  "Pull ext d h = adb (CallPull d h) (adb_Pull ext d h)"

text \<open>
  \<^verbatim>\<open>with device_temp_file.DeviceTempFile(self.adb, suffix) as f: body\<close>: the file is
  closed on every exit of the body.
\<close>

definition with_DeviceTempFile ::
  "'w externals \<Rightarrow> string \<Rightarrow> (string \<Rightarrow> string \<Rightarrow> ('w, 'a) dev) \<Rightarrow> ('w, 'a) dev" where
  "with_DeviceTempFile ext sfx body =
     bindM (adb (CallTempFile sfx) (DeviceTempFile_enter ext sfx))
       (\<lambda>(name, name_quoted).
          try_finally (body name name_quoted)
            (adb (CallTempClose name) (DeviceTempFile_close ext name)))"

definition get :: "('w device_utils \<Rightarrow> 'a) \<Rightarrow> ('w, 'a) dev" where
  "get f = (\<lambda>s. (Inr (f s), s))"

definition modify :: "('w device_utils \<Rightarrow> 'w device_utils) \<Rightarrow> ('w, unit) dev" where
  "modify f = (\<lambda>s. (Inr (), f s))"

section \<open>RunShellCommand and NeedsSU\<close>

definition MAX_ADB_COMMAND_LENGTH :: nat where
  "MAX_ADB_COMMAND_LENGTH = 512"


text \<open>
  \<^verbatim>\<open>_VALID_SHELL_VARIABLE.match(key)\<close> for \<^verbatim>\<open>^[a-zA-Z_][a-zA-Z0-9_]*$\<close>: a letter or an
  underscore, then letters, digits and underscores up to the end of the string, or up to
  a line feed that ends it (where \<^verbatim>\<open>$\<close> matches too).
\<close>

definition is_name_start :: "char \<Rightarrow> bool" where
  "is_name_start c =
     (c \<in> set ''abcdefghijklmnopqrstuvwxyzABCDEFGHIJKLMNOPQRSTUVWXYZ_'')"

definition is_name_char :: "char \<Rightarrow> bool" where
  "is_name_char c = (is_name_start c \<or> is_digit c)"

definition VALID_SHELL_VARIABLE :: "string \<Rightarrow> bool" where
  "VALID_SHELL_VARIABLE key =
     (case key of
        [] \<Rightarrow> False
      | c # cs \<Rightarrow>
          is_name_start c \<and> (let r = dropWhile is_name_char cs in r = [] \<or> r = [LF]))"

text \<open>The command: a string the device's shell interprets, or a sequence of arguments.\<close>

datatype cmd = CmdString string | CmdArgs "string list"

text \<open>
  What \<^verbatim>\<open>RunShellCommand\<close> returns: the list of lines, or with \<^verbatim>\<open>single_line\<close> the
  one line.
\<close>

datatype shell_result = Lines "string list" | Line string

definition env_quote :: "'w externals \<Rightarrow> string \<Rightarrow> string \<Rightarrow> error + string" where
  "env_quote ext key val =
     (if \<not> VALID_SHELL_VARIABLE key then Inl (KeyError key)
      else Inr (key @ ''='' @ DoubleQuote ext val))"

text \<open>
  \<^verbatim>\<open>env_quote(k, v) for k, v in env.iteritems()\<close>, consumed by \<^verbatim>\<open>join\<close>: the first
  invalid name raises. The dictionary \<^verbatim>\<open>env\<close> is an association list in the order
  of iteration.
\<close>

fun env_quotes :: "'w externals \<Rightarrow> (string \<times> string) list \<Rightarrow> error + string list" where
  "env_quotes ext [] = Inr []"
| "env_quotes ext ((k, v) # kvs) =
     (case env_quote ext k v of
        Inl e \<Rightarrow> Inl e
      | Inr q \<Rightarrow> (case env_quotes ext kvs of Inl e \<Rightarrow> Inl e | Inr qs \<Rightarrow> Inr (q # qs)))"

definition do_run :: "'w externals \<Rightarrow> bool \<Rightarrow> string \<Rightarrow> ('w, string) dev" where
  "do_run ext check_return cmd =
     try_except (Shell ext cmd) is_AdbCommandFailedError
       (\<lambda>exc. if check_return then raiseM exc
          else (case exc of AdbCommandFailedError out \<Rightarrow> returnM out | e \<Rightarrow> raiseM e))"

definition WriteFileWithPush :: "'w externals \<Rightarrow> string \<Rightarrow> string \<Rightarrow> ('w, unit) dev" where
  "WriteFileWithPush ext device_path contents =
     bindM (host (NamedTemporaryFile ext []))
       (\<lambda>host_temp.
          try_finally
            (bindM (host_do (host_write ext host_temp contents))
               (\<lambda>u. Push ext host_temp device_path))
            (host_do (host_close ext host_temp)))"

text \<open>
  Lines 527 to 534: the command is sent inline when it is shorter than
  \<^verbatim>\<open>_MAX_ADB_COMMAND_LENGTH\<close>, and otherwise pushed as a script and run with \<^verbatim>\<open>sh\<close>.
\<close>

definition run_output :: "'w externals \<Rightarrow> bool \<Rightarrow> string \<Rightarrow> ('w, string) dev" where
  "run_output ext check_return cmd =
     (if length cmd < MAX_ADB_COMMAND_LENGTH then do_run ext check_return cmd
      else
        with_DeviceTempFile ext ''.sh''
          (\<lambda>name name_quoted.
             bindM (WriteFileWithPush ext name cmd)
               (\<lambda>u. do_run ext check_return (''sh '' @ name_quoted))))"

text \<open>Lines 536 to 546: the output split into lines, and the check of \<^verbatim>\<open>single_line\<close>.\<close>

definition split_output :: "bool \<Rightarrow> string \<Rightarrow> ('w, shell_result) dev" where
  "split_output single_line raw =
     (let output = splitlines raw in
      if single_line then
        (if output = [] then returnM (Line [])
         else if length output = 1 then returnM (Line (hd output))
         else raiseM (CommandFailedError ''one line of output was expected, but got: %s'' output))
      else returnM (Lines output))"

text \<open>
  \<^verbatim>\<open>RunShellCommand(cmd, check_return, single_line)\<close> for a command string, with no
  \<^verbatim>\<open>env\<close>, no \<^verbatim>\<open>cwd\<close> and \<^verbatim>\<open>as_root\<close> false: lines 524 to 546. This is the call
  \<^verbatim>\<open>NeedsSU\<close> makes, and what the full method ends with, which unfolds the mutual
  recursion of the two methods.
\<close>

definition RunShellCommand_str ::
  "'w externals \<Rightarrow> string \<Rightarrow> bool \<Rightarrow> bool \<Rightarrow> ('w, shell_result) dev" where
  "RunShellCommand_str ext cmd check_return single_line =
     bindM (run_output ext check_return cmd) (split_output single_line)"

definition NeedsSU :: "'w externals \<Rightarrow> ('w, cval) dev" where
  "NeedsSU ext =
     bindM (get cache)
       (\<lambda>c.
          bindM
            (if c ''needs_su'' = None then
               try_except
                 (bindM (RunShellCommand_str ext ''su -c ls /root && ! ls /root'' True False)
                    (\<lambda>r. modify (\<lambda>s. s\<lparr>cache := (cache s)(''needs_su'' \<mapsto> CBool True)\<rparr>)))
                 is_AdbCommandFailedError
                 (\<lambda>e. modify (\<lambda>s. s\<lparr>cache := (cache s)(''needs_su'' \<mapsto> CBool False)\<rparr>))
             else returnM ())
            (\<lambda>u. get (\<lambda>s. the (cache s ''needs_su''))))"

text \<open>
  Lines 514 to 523 of \<^verbatim>\<open>RunShellCommand\<close>: the command string assembled from the
  arguments, the environment, the directory and the root wrapper.
\<close>

definition assemble_cmd ::
  "'w externals \<Rightarrow> cmd \<Rightarrow> string option \<Rightarrow> (string \<times> string) list option \<Rightarrow> bool \<Rightarrow>
     ('w, string) dev" where
  "assemble_cmd ext cmd cwd env as_root =
     (let cmd1 =
        (case cmd of
           CmdString c \<Rightarrow> c
         | CmdArgs args \<Rightarrow> join '' '' (map (SingleQuote ext) args))
      in
      bindM
        (case env of
           None \<Rightarrow> returnM cmd1
         | Some kvs \<Rightarrow>
             if kvs = [] then returnM cmd1
             else
               (case env_quotes ext kvs of
                  Inl e \<Rightarrow> raiseM e
                | Inr qs \<Rightarrow> returnM (join '' '' qs @ '' '' @ cmd1)))
        (\<lambda>cmd2.
           let cmd3 =
             (case cwd of
                None \<Rightarrow> cmd2
              | Some d \<Rightarrow>
                  if d = [] then cmd2 else ''cd '' @ SingleQuote ext d @ '' && '' @ cmd2)
           in
           if as_root then
             bindM (NeedsSU ext)
               (\<lambda>n. returnM
                  (if truthy n then ''su -c sh -c '' @ SingleQuote ext cmd3 else cmd3))
           else returnM cmd3))"

text \<open>Lines 514 to 534: the raw output of the command.\<close>

definition RunShellCommand_output ::
  "'w externals \<Rightarrow> cmd \<Rightarrow> bool \<Rightarrow> string option \<Rightarrow> (string \<times> string) list option \<Rightarrow>
     bool \<Rightarrow> ('w, string) dev" where
  "RunShellCommand_output ext cmd check_return cwd env as_root =
     bindM (assemble_cmd ext cmd cwd env as_root) (run_output ext check_return)"

definition RunShellCommand ::
  "'w externals \<Rightarrow> cmd \<Rightarrow> bool \<Rightarrow> string option \<Rightarrow> (string \<times> string) list option \<Rightarrow>
     bool \<Rightarrow> bool \<Rightarrow> ('w, shell_result) dev" where
  "RunShellCommand ext cmd check_return cwd env as_root single_line =
     bindM (RunShellCommand_output ext cmd check_return cwd env as_root)
       (split_output single_line)"

text \<open>The two shapes of the result, read by the callers.\<close>

fun lines_of :: "shell_result \<Rightarrow> string list" where
  "lines_of (Lines ls) = ls"
| "lines_of (Line l) = [l]"

fun line_of :: "shell_result \<Rightarrow> string" where
  "line_of (Line l) = l"
| "line_of (Lines ls) = concat ls"

section \<open>Properties, root and processes\<close>

definition GetProp :: "'w externals \<Rightarrow> string \<Rightarrow> bool \<Rightarrow> ('w, cval) dev" where
  "GetProp ext property_name cache_arg =
     (let cache_key = ''_prop:'' @ property_name in
      bindM (get cache)
        (\<lambda>c.
           if cache_arg \<and> c cache_key \<noteq> None then returnM (the (c cache_key))
           else
             bindM
               (RunShellCommand ext (CmdArgs [''getprop'', property_name])
                  True None None False True)
               (\<lambda>r.
                  let v = CStr (line_of r) in
                  bindM
                    (modify (\<lambda>s.
                       if cache_arg \<or> cache s cache_key \<noteq> None
                       then s\<lparr>cache := (cache s)(cache_key \<mapsto> v)\<rparr> else s))
                    (\<lambda>u. returnM v))))"

definition SetProp :: "'w externals \<Rightarrow> string \<Rightarrow> string \<Rightarrow> bool \<Rightarrow> ('w, unit) dev" where
  "SetProp ext property_name val check =
     bindM
       (RunShellCommand ext (CmdArgs [''setprop'', property_name, val])
          True None None False False)
       (\<lambda>r.
          bindM
            (modify (\<lambda>s.
               if cache s property_name \<noteq> None
               then s\<lparr>cache := (cache s)(property_name := None)\<rparr> else s))
            (\<lambda>u.
               if check then
                 bindM (GetProp ext property_name False)
                   (\<lambda>v.
                      if CStr val \<noteq> v then
                        raiseM (CommandFailedError
                          ''Unable to set property %r on the device to %r'' [property_name, val])
                      else returnM ())
               else returnM ()))"

definition build_type :: "'w externals \<Rightarrow> ('w, cval) dev" where
  "build_type ext = GetProp ext ''ro.build.type'' True"

definition IsUserBuild :: "'w externals \<Rightarrow> ('w, bool) dev" where
  "IsUserBuild ext = bindM (build_type ext) (\<lambda>v. returnM (v = CStr ''user''))"

definition EnableRoot :: "'w externals \<Rightarrow> ('w, unit) dev" where
  "EnableRoot ext =
     bindM (IsUserBuild ext)
       (\<lambda>user.
          if user then raiseM (CommandFailedError ''Cannot enable root in user builds.'' [])
          else
            bindM
              (modify (\<lambda>s.
                 if cache s ''needs_su'' \<noteq> None
                 then s\<lparr>cache := (cache s)(''needs_su'' := None)\<rparr> else s))
              (\<lambda>u.
                 bindM (adb CallRoot (adb_Root ext))
                   (\<lambda>u. adb CallWaitForDevice (adb_WaitForDevice ext))))"

text \<open>
  One line of \<^verbatim>\<open>ps\<close> in \<^verbatim>\<open>_GetPidsImpl\<close>: the entry it adds to \<^verbatim>\<open>procs_pids\<close>, if
  any. \<^verbatim>\<open>ps_data[-1]\<close> raises \<^verbatim>\<open>IndexError\<close> on a line with no field and
  \<^verbatim>\<open>ps_data[1]\<close> on a line with one field; the exception is caught and the line skipped.
\<close>

definition ps_entry :: "string \<Rightarrow> string \<Rightarrow> (string \<times> string) option" where
  "ps_entry process_name line =
     (let ps_data = split_ws line in
      if ps_data = [] then None
      else if contains (last ps_data) process_name then
        (if length ps_data < 2 then None else Some (last ps_data, ps_data ! 1))
      else None)"

text \<open>
  The dictionary \<^verbatim>\<open>procs_pids\<close> is an association list: an assignment to a key it has
  replaces the value, as \<^const>\<open>AList.update\<close> does. (Python 2 iterates a dictionary in
  an order of its own; the model keeps the order of insertion.)
\<close>

definition procs_pids_of :: "string \<Rightarrow> string list \<Rightarrow> (string \<times> string) list" where
  "procs_pids_of process_name ls =
     foldl (\<lambda>d line. case ps_entry process_name line of
                        None \<Rightarrow> d
                      | Some (k, v) \<Rightarrow> AList.update k v d) [] ls"

definition GetPidsImpl :: "'w externals \<Rightarrow> string \<Rightarrow> ('w, (string \<times> string) list) dev" where
  "GetPidsImpl ext process_name =
     bindM (RunShellCommand ext (CmdString ''ps'') True None None False False)
       (\<lambda>r. returnM (procs_pids_of process_name (lines_of r)))"

text \<open>
  The loop of \<^verbatim>\<open>KillAll\<close> with \<^verbatim>\<open>blocking\<close>: it polls until no process is left, and
  need not end; \<open>None\<close> is the run that never returns.
\<close>

partial_function (option) KillAll_wait ::
  "'w externals \<Rightarrow> string \<Rightarrow> 'w device_utils \<Rightarrow> ((error + unit) \<times> 'w device_utils) option"
where
  "KillAll_wait ext process_name s =
     (case GetPidsImpl ext process_name s of
        (Inl e, s1) \<Rightarrow> Some (Inl e, s1)
      | (Inr pids, s1) \<Rightarrow>
          if pids = [] then Some (Inr (), s1)
          else KillAll_wait ext process_name (s1\<lparr>world := time_sleep ext (world s1)\<rparr>))"

definition KillAll ::
  "'w externals \<Rightarrow> string \<Rightarrow> int \<Rightarrow> bool \<Rightarrow> bool \<Rightarrow> 'w device_utils \<Rightarrow>
     ((error + nat) \<times> 'w device_utils) option" where
  "KillAll ext process_name signum as_root blocking s =
     (case GetPidsImpl ext process_name s of
        (Inl e, s1) \<Rightarrow> Some (Inl e, s1)
      | (Inr pids, s1) \<Rightarrow>
          if pids = [] then
            Some (Inl (CommandFailedError
                         (''No process '' @ [CHR 0x22] @ process_name @ [CHR 0x22]) []), s1)
          else
            (case RunShellCommand ext
                    (CmdArgs ([''kill'', ''-'' @ str_int signum] @ map snd pids))
                    True None None as_root False s1 of
               (Inl e, s2) \<Rightarrow> Some (Inl e, s2)
             | (Inr r, s2) \<Rightarrow>
                 if blocking then
                   (case KillAll_wait ext process_name s2 of
                      None \<Rightarrow> None
                    | Some (Inl e, s3) \<Rightarrow> Some (Inl e, s3)
                    | Some (Inr u, s3) \<Rightarrow> Some (Inr (length pids), s3))
                 else Some (Inr (length pids), s2)))"

section \<open>ReadFile and WriteFile\<close>












section \<open>Changed files and the push strategies\<close>

text \<open>
  \<^verbatim>\<open>_GetChangedFilesImpl\<close>. A record of \<^verbatim>\<open>md5sum\<close> is the pair of its hash and its
  path. \<^verbatim>\<open>md5sum.CalculateDeviceMd5Sums\<close> works on the device through the session; the
  calls it makes are its own and are not recorded.
\<close>

definition world_op :: "('w \<Rightarrow> (error + 'a) \<times> 'w) \<Rightarrow> ('w, 'a) dev" where
  "world_op f = (\<lambda>s. case f (world s) of (r, w') \<Rightarrow> (r, s\<lparr>world := w'\<rparr>))"

text \<open>
  \<^verbatim>\<open>dict((d.path, d.hash) for d in device_hash_tuples)\<close>: a later record of a path
  replaces an earlier one.
\<close>

definition device_tuple_dict :: "hash_and_path list \<Rightarrow> (string \<rightharpoonup> string)" where
  "device_tuple_dict device_hash_tuples =
     map_of (rev (map (\<lambda>(h, p). (p, h)) device_hash_tuples))"

text \<open>The loop of lines 811 to 817 over the host's records.\<close>

fun to_push ::
  "'w externals \<Rightarrow> string \<Rightarrow> string \<Rightarrow> (string \<rightharpoonup> string) \<Rightarrow> hash_and_path list \<Rightarrow>
     (string \<times> string) list" where
  "to_push ext real_host_path real_device_path dict [] = []"
| "to_push ext real_host_path real_device_path dict ((host_hash, host_abs_path) # hs) =
     (let device_abs_path =
            real_device_path @ ''/'' @ os_path_relpath ext host_abs_path real_host_path
      in if dict device_abs_path = None \<or> the (dict device_abs_path) \<noteq> host_hash
         then (host_abs_path, device_abs_path)
                # to_push ext real_host_path real_device_path dict hs
         else to_push ext real_host_path real_device_path dict hs)"

definition GetChangedFilesImpl ::
  "'w externals \<Rightarrow> string \<Rightarrow> string \<Rightarrow> ('w, (string \<times> string) list) dev" where
  "GetChangedFilesImpl ext host_path device_path =
     bindM (get (\<lambda>s. os_path_realpath ext host_path (world s)))
       (\<lambda>real_host_path.
          bindM
            (try_except
               (bindM
                  (RunShellCommand ext (CmdArgs [''realpath'', device_path])
                     True None None False True)
                  (\<lambda>r. returnM (Some (line_of r))))
               is_CommandFailedError (\<lambda>e. returnM None))
            (\<lambda>real_device_path.
               if real_device_path = None \<or> the real_device_path = []
               then returnM [(host_path, device_path)]
               else
                 bindM (host_get (CalculateHostMd5Sums ext [real_host_path]))
                   (\<lambda>host_hash_tuples.
                      bindM (get (\<lambda>s. os_path_isfile ext real_host_path (world s)))
                        (\<lambda>real_is_file.
                           bindM
                             (world_op
                                (CalculateDeviceMd5Sums ext
                                   (if real_is_file then [the real_device_path]
                                    else map (\<lambda>(h, p).
                                           the real_device_path @ ''/''
                                             @ os_path_relpath ext p real_host_path)
                                         host_hash_tuples)))
                             (\<lambda>device_hash_tuples.
                                bindM (get (\<lambda>s. os_path_isfile ext host_path (world s)))
                                  (\<lambda>is_file.
                                     if is_file then
                                       (if device_hash_tuples = []
                                        then returnM [(host_path, device_path)]
                                        else if host_hash_tuples = [] then raiseM IndexError
                                        else if fst (hd device_hash_tuples)
                                                  \<noteq> fst (hd host_hash_tuples)
                                        then returnM [(host_path, device_path)]
                                        else returnM [])
                                     else
                                       returnM
                                         (to_push ext real_host_path (the real_device_path)
                                            (device_tuple_dict device_hash_tuples)
                                            host_hash_tuples)))))))"



fun PushChangedFilesIndividually ::
  "'w externals \<Rightarrow> (string \<times> string) list \<Rightarrow> ('w, unit) dev" where
  "PushChangedFilesIndividually ext [] = returnM ()"
| "PushChangedFilesIndividually ext ((h, d) # files) =
     bindM (Push ext h d) (\<lambda>u. PushChangedFilesIndividually ext files)"










section \<open>A scripted device\<close>

text \<open>
  For the concrete runs below: a device that answers the shell commands of a script in
  order, as the mock of a unit test does. The world is the rest of the script; a command
  other than the next one expected is refused. Pushing, pulling and the host's files
  succeed and leave the world as it is; \<^verbatim>\<open>SingleQuote\<close> leaves a word of letters,
  digits and \<^verbatim>\<open>@%_-+=:,./\<close> as it is and wraps any other string in single quotes.
\<close>

type_synonym script = "(string \<times> (error + string)) list"

definition script_Shell :: "string \<Rightarrow> script \<Rightarrow> (error + string) \<times> script" where
  "script_Shell cmd w =
     (case w of
        [] \<Rightarrow> (Inl DeviceUnreachableError, [])
      | (c, r) # rest \<Rightarrow> if c = cmd then (r, rest) else (Inl (HostError ''unexpected''), w))"

definition is_safe_char :: "char \<Rightarrow> bool" where
  "is_safe_char c = (is_name_char c \<or> c \<in> set ''@%-+=:,./'')"

definition sh_quote :: "string \<Rightarrow> string" where
  "sh_quote s =
     (if s \<noteq> [] \<and> list_all is_safe_char s then s
      else [CHR 0x27]
        @ concat (map (\<lambda>c. if c = CHR 0x27 then [CHR 0x27, CHR 0x22, CHR 0x27, CHR 0x22, CHR 0x27]
                             else [c]) s)
        @ [CHR 0x27])"

definition scripted :: "script externals" where
  "scripted =
     \<lparr> adb_Shell = script_Shell,
       adb_Push = (\<lambda>h d w. (Inr (), w)),
       adb_Pull = (\<lambda>d h w. (Inr (), w)),
       adb_Root = (\<lambda>w. (Inr (), w)),
       adb_WaitForDevice = (\<lambda>w. (Inr (), w)),
       adb_GetState = (\<lambda>w. (Inr ''device'', w)),
       SingleQuote = sh_quote,
       DoubleQuote = (\<lambda>v. [CHR 0x22] @ v @ [CHR 0x22]),
       DeviceTempFile_enter =
         (\<lambda>sfx w. (Inr (''/data/local/tmp/temp_file'' @ sfx,
                         sh_quote (''/data/local/tmp/temp_file'' @ sfx)), w)),
       DeviceTempFile_close = (\<lambda>name w. (Inr (), w)),
       NamedTemporaryFile = (\<lambda>sfx w. (''/tmp/tmpfile'' @ sfx, w)),
       host_write = (\<lambda>name contents w. w),
       host_close = (\<lambda>name w. w),
       mkdtemp = (\<lambda>w. (''/tmp/tmpdir'', w)),
       host_read = (\<lambda>name w. Inr []),
       rmtree = (\<lambda>name w. w),
       os_path_realpath = (\<lambda>p w. p),
       os_path_isfile = (\<lambda>p w. False),
       os_path_isdir = (\<lambda>p w. True),
       os_path_relpath = (\<lambda>p start. drop (Suc (length start)) p),
       os_walk_file_count = (\<lambda>p w. 0),
       GetRecursiveDiskUsage = (\<lambda>p w. 0),
       CalculateHostMd5Sums = (\<lambda>ps w. Inr []),
       CalculateDeviceMd5Sums = (\<lambda>ps w. (Inr [], w)),
       install_commands_Installed = (\<lambda>w. (Inr True, w)),
       install_commands_InstallCommands = (\<lambda>w. (Inr (), w)),
       BIN_DIR = ''/data/local/tmp/bin'',
       CreateDeviceZip = (\<lambda>zip files w. w),
       time_sleep = (\<lambda>w. w) \<rparr>"

text \<open>A fresh \<^verbatim>\<open>DeviceUtils\<close> object on a world.\<close>

definition init :: "'w \<Rightarrow> 'w device_utils" where
  "init w = \<lparr> cache = Map.empty, commands_installed = None, world = w, calls = [] \<rparr>"

section \<open>Concrete sessions\<close>

text \<open>
  The predicate of the claims on \<^verbatim>\<open>KillAll\<close>: the last whitespace-delimited field of
  a line of the process listing contains the process name.
\<close>

definition name_field_matches :: "string \<Rightarrow> string \<Rightarrow> bool" where
  "name_field_matches process_name line =
     (split_ws line \<noteq> [] \<and> contains (last (split_ws line)) process_name)"

text \<open>
  A device whose property \<^verbatim>\<open>foo\<close> reads \<^verbatim>\<open>old\<close>, is then set, and would read
  \<^verbatim>\<open>new\<close> if asked again.
\<close>

definition prop_script :: script where
  "prop_script =
     [(''getprop foo'', Inr (''old'' @ [LF])),
      (''setprop foo new'', Inr []),
      (''getprop foo'', Inr (''new'' @ [LF]))]"

text \<open>Process listings: one without the process looked for, one with it twice.\<close>

definition ps_other :: string where
  "ps_other = JoinLines
     [''USER PID PPID VSIZE RSS WCHAN PC NAME'',
      ''root 1 0 640 496 ffffffff 00000000 S /init'',
      ''u0_a7 812 1 9000 700 ffffffff 00000000 S com.other.app'']"

definition ps_twice :: string where
  "ps_twice = JoinLines
     [''USER PID PPID VSIZE RSS WCHAN PC NAME'',
      ''u0_a9 100 1 9000 700 ffffffff 00000000 S com.example.app'',
      ''u0_a9 200 1 9000 700 ffffffff 00000000 S com.example.app'']"

text \<open>
  A device on which \<^verbatim>\<open>adb root\<close> fails, and sessions that have \<^verbatim>\<open>needs_su\<close> cached
  on a userdebug and on a user build.
\<close>

definition no_root :: "script externals" where
  "no_root = scripted\<lparr>adb_Root := (\<lambda>w. (Inl DeviceUnreachableError, w))\<rparr>"

definition userdebug_session :: "script device_utils" where
  "userdebug_session =
     \<lparr> cache = [''needs_su'' \<mapsto> CBool True], commands_installed = None,
       world = [(''getprop ro.build.type'', Inr (''userdebug'' @ [LF]))], calls = [] \<rparr>"

definition user_session :: "script device_utils" where
  "user_session =
     \<lparr> cache = [''needs_su'' \<mapsto> CBool True], commands_installed = None,
       world = [(''getprop ro.build.type'', Inr (''user'' @ [LF]))], calls = [] \<rparr>"




text \<open>A session with an empty cache, on a script, after the given calls.\<close>

definition session :: "script \<Rightarrow> adb_call list \<Rightarrow> script device_utils" where
  "session w cs = \<lparr> cache = Map.empty, commands_installed = None, world = w, calls = cs \<rparr>"






text \<open>
  Hosts and devices for \<^verbatim>\<open>_GetChangedFilesImpl\<close>. The directory \<^verbatim>\<open>/host/A\<close> holds
  \<^verbatim>\<open>a.txt\<close> (hash \<^verbatim>\<open>H1\<close>) and \<^verbatim>\<open>b.txt\<close> (hash \<^verbatim>\<open>H2\<close>), and \<^verbatim>\<open>/sdcard/A\<close> holds
  \<^verbatim>\<open>a.txt\<close> (hash \<^verbatim>\<open>H1\<close>) and \<^verbatim>\<open>c.txt\<close> (hash \<^verbatim>\<open>H3\<close>). The file \<^verbatim>\<open>/host/f\<close>
  has the hash \<^verbatim>\<open>H1\<close> and \<^verbatim>\<open>/sdcard/f\<close> the hash \<^verbatim>\<open>H0\<close>.
\<close>

definition dir_device :: "script externals" where
  "dir_device = scripted
     \<lparr> CalculateHostMd5Sums :=
         (\<lambda>ps w. Inr [(''H1'', ''/host/A/a.txt''), (''H2'', ''/host/A/b.txt'')]),
       CalculateDeviceMd5Sums :=
         (\<lambda>ps w. (Inr [(''H1'', ''/sdcard/A/a.txt''), (''H3'', ''/sdcard/A/c.txt'')], w)) \<rparr>"

definition file_device :: "script externals" where
  "file_device = scripted
     \<lparr> os_path_isfile := (\<lambda>p w. True),
       CalculateHostMd5Sums := (\<lambda>ps w. Inr [(''H1'', ''/host/f'')]),
       CalculateDeviceMd5Sums := (\<lambda>ps w. (Inr [(''H0'', ''/sdcard/f'')], w)) \<rparr>"





section \<open>Reasoning about runs\<close>

lemmas monad_defs = returnM_def raiseM_def bindM_def try_except_def try_finally_def adb_def
  host_def host_do_def host_get_def get_def modify_def Shell_def Push_def Pull_def
  with_DeviceTempFile_def

lemmas scripted_defs = scripted_def init_def script_Shell_def sh_quote_def is_safe_char_def
  is_name_char_def is_name_start_def is_digit_def

text \<open>
  The call of \<^verbatim>\<open>NeedsSU\<close> is the full method at a command string with no environment,
  no directory and \<^verbatim>\<open>as_root\<close> false.
\<close>

lemma RunShellCommand_CmdString:
  "RunShellCommand ext (CmdString c) check_return None None False single_line =
     RunShellCommand_str ext c check_return single_line"
  by (simp add: RunShellCommand_def RunShellCommand_output_def RunShellCommand_str_def
      assemble_cmd_def bindM_def returnM_def)

lemma do_run_calls: "calls (snd (do_run ext cr c s)) = calls s @ [CallShell c]"
  by (simp add: do_run_def monad_defs split: prod.splits sum.splits error.splits)

lemma split_output_state: "snd (split_output sl raw s) = s"
  by (simp add: split_output_def monad_defs Let_def)

lemma snd_bindM_split_output:
  "snd (bindM m (split_output sl) s) = snd (m s)"
  by (simp add: bindM_def split_output_state split: prod.splits sum.splits)

section \<open>The single-line contract of RunShellCommand\<close>

text \<open>
  Claim C6. Let \<open>raw\<close> be the output that \<^verbatim>\<open>RunShellCommand\<close> obtained for its command
  (lines 514 to 534 returned it). With \<^verbatim>\<open>single_line\<close> true the call returns the empty
  string when \<open>raw\<close> splits into no line, the line when it splits into exactly one, and
  raises \<^verbatim>\<open>CommandFailedError\<close> carrying all the lines when it splits into two or more.
\<close>

theorem RunShellCommand_single_line:
  assumes "RunShellCommand_output ext cmd check_return cwd env as_root s = (Inr raw, s')"
  shows "RunShellCommand ext cmd check_return cwd env as_root True s =
     (case splitlines raw of
        [] \<Rightarrow> (Inr (Line []), s')
      | [l] \<Rightarrow> (Inr (Line l), s')
      | l # l' # ls \<Rightarrow>
          (Inl (CommandFailedError ''one line of output was expected, but got: %s''
                  (l # l' # ls)), s'))"
  using assms
  by (simp add: RunShellCommand_def bindM_def split_output_def returnM_def raiseM_def
      split: list.splits)

theorem RunShellCommand_single_line_witness:
  "RunShellCommand_output scripted (CmdString ''echo hi'') True None None False
      (init [(''echo hi'', Inr (''hi'' @ [LF]))]) =
     (Inr (''hi'' @ [LF]),
      \<lparr>cache = Map.empty, commands_installed = None, world = [],
       calls = [CallShell ''echo hi'']\<rparr>) \<and>
   RunShellCommand scripted (CmdString ''echo hi'') True None None False True
      (init [(''echo hi'', Inr (''hi'' @ [LF]))]) =
     (Inr (Line ''hi''),
      \<lparr>cache = Map.empty, commands_installed = None, world = [],
       calls = [CallShell ''echo hi'']\<rparr>)"
proof -
  have h: "RunShellCommand_output scripted (CmdString ''echo hi'') True None None False
      (init [(''echo hi'', Inr (''hi'' @ [LF]))]) =
     (Inr (''hi'' @ [LF]),
      \<lparr>cache = Map.empty, commands_installed = None, world = [],
       calls = [CallShell ''echo hi'']\<rparr>)"
    by (simp add: RunShellCommand_output_def assemble_cmd_def run_output_def do_run_def
        MAX_ADB_COMMAND_LENGTH_def monad_defs scripted_defs)
  show ?thesis
    using h RunShellCommand_single_line [OF h] by (simp add: splitlines_def)
qed

section \<open>The command-length threshold of RunShellCommand\<close>

text \<open>
  Claim C7 says that a command of length at most 512 is sent inline. A command of
  exactly 512 bytes is not: the test of line 527 is \<^verbatim>\<open>len(cmd) < 512\<close>, so the command
  goes to a script on the device.
\<close>

theorem RunShellCommand_threshold_counterexample:
  "length (replicate 512 (CHR ''a'')) = 512 \<and>
   calls (snd (RunShellCommand scripted (CmdString (replicate 512 (CHR ''a''))) False None None
                 False False (init [(''sh /data/local/tmp/temp_file.sh'', Inr [])]))) =
     [CallTempFile ''.sh'', CallPush ''/tmp/tmpfile'' ''/data/local/tmp/temp_file.sh'',
      CallShell ''sh /data/local/tmp/temp_file.sh'',
      CallTempClose ''/data/local/tmp/temp_file.sh'']"
  by (simp add: RunShellCommand_def RunShellCommand_output_def assemble_cmd_def run_output_def
      do_run_def WriteFileWithPush_def split_output_def splitlines_def
      MAX_ADB_COMMAND_LENGTH_def monad_defs scripted_defs)

text \<open>
  Claim C7, amended. Let \<open>full\<close> be the command string assembled from the arguments,
  the environment, the directory and the root wrapper. If \<open>full\<close> is shorter than 512
  bytes, the one call made on the device is \<^verbatim>\<open>Shell(full)\<close>. If it has 512 bytes or
  more, a temporary file with suffix \<^verbatim>\<open>.sh\<close> is made on the device, and when that and
  the push of the command to it succeed, the calls are: the temporary file, the push,
  \<^verbatim>\<open>Shell('sh ' + name_quoted)\<close> and the removal of the file.
\<close>

theorem RunShellCommand_inline_or_script:
  assumes "assemble_cmd ext cmd cwd env as_root s = (Inr full, s1)"
  shows "(length full < 512 \<longrightarrow>
            calls (snd (RunShellCommand ext cmd cr cwd env as_root sl s)) =
              calls s1 @ [CallShell full]) \<and>
         (512 \<le> length full \<longrightarrow>
            DeviceTempFile_enter ext ''.sh'' (world s1) = (Inr (name, nq), wa) \<longrightarrow>
            NamedTemporaryFile ext [] wa = (tmp, wb) \<longrightarrow>
            adb_Push ext tmp name (host_write ext tmp full wb) = (Inr (), wc) \<longrightarrow>
            calls (snd (RunShellCommand ext cmd cr cwd env as_root sl s)) =
              calls s1 @ [CallTempFile ''.sh'', CallPush tmp name, CallShell (''sh '' @ nq),
                          CallTempClose name])"
proof -
  have run: "snd (RunShellCommand ext cmd cr cwd env as_root sl s) = snd (run_output ext cr full s1)"
    using assms
    by (simp add: RunShellCommand_def RunShellCommand_output_def snd_bindM_split_output)
       (simp add: bindM_def)
  show ?thesis
    unfolding run
    by (auto simp add: run_output_def MAX_ADB_COMMAND_LENGTH_def do_run_calls
        WriteFileWithPush_def do_run_def monad_defs split: prod.splits sum.splits error.splits)
qed


theorem RunShellCommand_inline_or_script_witness:
  "assemble_cmd scripted (CmdArgs [''ls'', ''/a b'']) None None False (init [(''ls '' @ [CHR 0x27] @ ''/a b'' @ [CHR 0x27], Inr [])]) =
     (Inr (''ls '' @ [CHR 0x27] @ ''/a b'' @ [CHR 0x27]), init [(''ls '' @ [CHR 0x27] @ ''/a b'' @ [CHR 0x27], Inr [])]) \<and>
   calls (snd (RunShellCommand scripted (CmdArgs [''ls'', ''/a b'']) True None None False False
      (init [(''ls '' @ [CHR 0x27] @ ''/a b'' @ [CHR 0x27], Inr [])]))) =
     [CallShell (''ls '' @ [CHR 0x27] @ ''/a b'' @ [CHR 0x27])] \<and>
   assemble_cmd scripted (CmdString (replicate 600 (CHR ''a''))) None None False
      (init [(''sh /data/local/tmp/temp_file.sh'', Inr [])]) =
     (Inr (replicate 600 (CHR ''a'')), init [(''sh /data/local/tmp/temp_file.sh'', Inr [])]) \<and>
   calls (snd (RunShellCommand scripted (CmdString (replicate 600 (CHR ''a''))) True None None
                 False False (init [(''sh /data/local/tmp/temp_file.sh'', Inr [])]))) =
     [CallTempFile ''.sh'', CallPush ''/tmp/tmpfile'' ''/data/local/tmp/temp_file.sh'',
      CallShell ''sh /data/local/tmp/temp_file.sh'',
      CallTempClose ''/data/local/tmp/temp_file.sh'']"
proof -
  let ?w1 = "[(''ls '' @ [CHR 0x27] @ ''/a b'' @ [CHR 0x27], Inr [])] :: script"
  let ?w2 = "[(''sh /data/local/tmp/temp_file.sh'', Inr [])] :: script"
  have h1: "assemble_cmd scripted (CmdArgs [''ls'', ''/a b'']) None None False (init ?w1) =
     (Inr (''ls '' @ [CHR 0x27] @ ''/a b'' @ [CHR 0x27]), init ?w1)"
    by (simp add: assemble_cmd_def monad_defs scripted_defs)
  have h2: "assemble_cmd scripted (CmdString (replicate 600 (CHR ''a''))) None None False
      (init ?w2) = (Inr (replicate 600 (CHR ''a'')), init ?w2)"
    by (simp add: assemble_cmd_def monad_defs)
  have e: "DeviceTempFile_enter scripted ''.sh'' (world (init ?w2)) =
      (Inr (''/data/local/tmp/temp_file.sh'', ''/data/local/tmp/temp_file.sh''), ?w2)"
    by (simp add: scripted_defs)
  have t: "NamedTemporaryFile scripted [] ?w2 = (''/tmp/tmpfile'', ?w2)"
    by (simp add: scripted_defs)
  have p: "adb_Push scripted ''/tmp/tmpfile'' ''/data/local/tmp/temp_file.sh''
      (host_write scripted ''/tmp/tmpfile'' (replicate 600 (CHR ''a'')) ?w2) = (Inr (), ?w2)"
    by (simp add: scripted_defs)
  from RunShellCommand_inline_or_script [OF h1, where cr = True and sl = False]
  have c1: "calls (snd (RunShellCommand scripted (CmdArgs [''ls'', ''/a b'']) True None None False
      False (init ?w1))) = [CallShell (''ls '' @ [CHR 0x27] @ ''/a b'' @ [CHR 0x27])]"
    by (simp add: init_def)
  from RunShellCommand_inline_or_script [OF h2, where cr = True and sl = False
      and name = "''/data/local/tmp/temp_file.sh''" and nq = "''/data/local/tmp/temp_file.sh''"
      and wa = ?w2 and tmp = "''/tmp/tmpfile''" and wb = ?w2 and wc = ?w2] e t p
  have c2: "calls (snd (RunShellCommand scripted (CmdString (replicate 600 (CHR ''a''))) True None
      None False False (init ?w2))) =
     [CallTempFile ''.sh'', CallPush ''/tmp/tmpfile'' ''/data/local/tmp/temp_file.sh'',
      CallShell ''sh /data/local/tmp/temp_file.sh'',
      CallTempClose ''/data/local/tmp/temp_file.sh'']"
    by (simp add: init_def)
  from h1 c1 h2 c2 show ?thesis by simp
qed

lemmas run_defs = RunShellCommand_def RunShellCommand_output_def assemble_cmd_def run_output_def
  do_run_def split_output_def splitlines_def MAX_ADB_COMMAND_LENGTH_def

lemma cache_do_run: "cache (snd (do_run ext cr c s)) = cache s"
  by (simp add: do_run_def monad_defs split: prod.splits sum.splits error.splits)

lemma cache_WriteFileWithPush: "cache (snd (WriteFileWithPush ext d c s)) = cache s"
  by (simp add: WriteFileWithPush_def monad_defs split: prod.splits sum.splits)

lemma cache_run_output: "cache (snd (run_output ext cr c s)) = cache s"
  by (auto simp add: run_output_def do_run_def WriteFileWithPush_def monad_defs
      split: prod.splits sum.splits error.splits)

lemma assemble_cmd_nonroot_state:
  "snd (assemble_cmd ext cmd cwd env False s) = s"
  by (simp add: assemble_cmd_def monad_defs Let_def split: option.splits sum.splits)

lemma cache_RunShellCommand_nonroot:
  "cache (snd (RunShellCommand ext cmd cr cwd env False sl s)) = cache s"
proof -
  obtain r where a: "assemble_cmd ext cmd cwd env False s = (r, s)"
    using assemble_cmd_nonroot_state [of ext cmd cwd env s]
    by (cases "assemble_cmd ext cmd cwd env False s") simp
  show ?thesis
  proof (cases r)
    case (Inl e)
    with a show ?thesis
      by (simp add: RunShellCommand_def RunShellCommand_output_def bindM_def)
  next
    case (Inr full)
    with a have "snd (RunShellCommand ext cmd cr cwd env False sl s) = snd (run_output ext cr full s)"
      by (simp add: RunShellCommand_def RunShellCommand_output_def snd_bindM_split_output)
         (simp add: bindM_def)
    then show ?thesis by (simp add: cache_run_output)
  qed
qed

lemma adb_calls: "calls (snd (adb c f s)) = calls s @ [c]"
  by (simp add: adb_def split: prod.splits)

lemma adb_cache: "cache (snd (adb c f s)) = cache s"
  by (simp add: adb_def split: prod.splits)

section \<open>The property cache\<close>

text \<open>
  A property that is cached is served from the cache: no call is made and nothing
  changes. \<^verbatim>\<open>GetProp\<close> with \<^verbatim>\<open>cache=True\<close> leaves the value it returns in the cache,
  and touches no other key.
\<close>

lemma GetProp_cached:
  "cache s (''_prop:'' @ p) = Some v \<Longrightarrow> GetProp ext p True s = (Inr v, s)"
  by (simp add: GetProp_def Let_def monad_defs)

lemma GetProp_caches:
  "GetProp ext p True s = (Inr v, s') \<Longrightarrow> cache s' (''_prop:'' @ p) = Some v"
  unfolding GetProp_def Let_def
  apply (simp add: monad_defs split: if_splits prod.splits sum.splits)
   apply auto
  done

lemma GetProp_frame:
  "k \<noteq> ''_prop:'' @ p \<Longrightarrow> cache (snd (GetProp ext p c s)) k = cache s k"
proof -
  assume k: "k \<noteq> ''_prop:'' @ p"
  obtain r s1 where r: "RunShellCommand ext (CmdArgs [''getprop'', p]) True None None False True s = (r, s1)"
    by (cases "RunShellCommand ext (CmdArgs [''getprop'', p]) True None None False True s")
  then have c: "cache s1 = cache s"
    using cache_RunShellCommand_nonroot [of ext "CmdArgs [''getprop'', p]" True None None True s]
    by simp
  show ?thesis
    using r c k by (cases r) (auto simp add: GetProp_def Let_def monad_defs)
qed

text \<open>
  \<^verbatim>\<open>SetProp\<close> deletes the key \<^verbatim>\<open>property_name\<close>, while \<^verbatim>\<open>GetProp\<close> caches under
  \<^verbatim>\<open>'_prop:' + property_name\<close>: the cached value of the property outlives the call.
\<close>

lemma SetProp_keeps_cache:
  "cache (snd (SetProp ext p v False s)) (''_prop:'' @ p) = cache s (''_prop:'' @ p)"
proof -
  have ne: "p \<noteq> ''_prop:'' @ p"
  proof
    assume "p = ''_prop:'' @ p"
    then have "length p = length (''_prop:'' @ p)" by simp
    then show False by simp
  qed
  obtain r s1 where r: "RunShellCommand ext (CmdArgs [''setprop'', p, v]) True None None False False s = (r, s1)"
    by (cases "RunShellCommand ext (CmdArgs [''setprop'', p, v]) True None None False False s")
  then have c: "cache s1 = cache s"
    using cache_RunShellCommand_nonroot [of ext "CmdArgs [''setprop'', p, v]" True None None False s]
    by simp
  show ?thesis
    using r c ne by (cases r) (auto simp add: SetProp_def Let_def monad_defs)
qed

text \<open>
  Claim C1 fails on the code at its second half. On the device of
  \<^const>\<open>prop_script\<close>, \<^verbatim>\<open>GetProp('foo', cache=True)\<close>, then
  \<^verbatim>\<open>SetProp('foo', 'new')\<close>, then \<^verbatim>\<open>GetProp('foo', cache=True)\<close> again: the last call
  returns the stale \<^verbatim>\<open>old\<close> and issues no query (the calls are the first query and the
  \<^verbatim>\<open>setprop\<close>; the answer \<^verbatim>\<open>new\<close> is still waiting on the device).
\<close>

theorem SetProp_leaves_stale_cache:
  "fst (GetProp scripted ''foo'' True
          (snd (SetProp scripted ''foo'' ''new'' False
             (snd (GetProp scripted ''foo'' True (init prop_script)))))) = Inr (CStr ''old'') \<and>
   calls (snd (GetProp scripted ''foo'' True
          (snd (SetProp scripted ''foo'' ''new'' False
             (snd (GetProp scripted ''foo'' True (init prop_script))))))) =
     [CallShell ''getprop foo'', CallShell ''setprop foo new''] \<and>
   world (snd (GetProp scripted ''foo'' True
          (snd (SetProp scripted ''foo'' ''new'' False
             (snd (GetProp scripted ''foo'' True (init prop_script))))))) =
     [(''getprop foo'', Inr (''new'' @ [LF]))]"
  by (simp add: GetProp_def SetProp_def Let_def prop_script_def run_defs monad_defs scripted_defs)

section \<open>KillAll\<close>

lemma ps_entry_no_match:
  "\<not> name_field_matches process_name line \<Longrightarrow> ps_entry process_name line = None"
  by (auto simp add: ps_entry_def name_field_matches_def Let_def)

lemma foldl_no_match:
  "\<forall>line \<in> set ls. \<not> name_field_matches process_name line \<Longrightarrow>
   foldl (\<lambda>d line. case ps_entry process_name line of None \<Rightarrow> d
                     | Some (k, v) \<Rightarrow> AList.update k v d) d ls = d"
  by (induction ls arbitrary: d) (simp_all add: ps_entry_no_match)

lemma procs_pids_of_no_match:
  "\<forall>line \<in> set ls. \<not> name_field_matches process_name line \<Longrightarrow>
   procs_pids_of process_name ls = []"
  by (simp add: procs_pids_of_def foldl_no_match)

lemma GetPidsImpl_ps:
  assumes "adb_Shell ext ''ps'' (world s) = (Inr out, w')"
  shows "GetPidsImpl ext process_name s =
           (Inr (procs_pids_of process_name (splitlines out)),
            s\<lparr>world := w', calls := calls s @ [CallShell ''ps'']\<rparr>)"
  using assms
  by (simp add: GetPidsImpl_def run_defs monad_defs Let_def)

text \<open>
  Claim C9. When the process listing is obtained and no line of it has a last field
  containing \<^verbatim>\<open>process_name\<close>, \<^verbatim>\<open>KillAll\<close> raises \<^verbatim>\<open>CommandFailedError\<close>
  (\<^verbatim>\<open>No process "..."\<close>) after the one call \<^verbatim>\<open>ps\<close>, whatever the signal, \<^verbatim>\<open>as_root\<close>
  and \<^verbatim>\<open>blocking\<close> are; it does not return a count of zero.
\<close>

theorem KillAll_no_process:
  assumes "adb_Shell ext ''ps'' (world s) = (Inr out, w')"
    and "\<forall>line \<in> set (splitlines out). \<not> name_field_matches process_name line"
  shows "KillAll ext process_name signum as_root blocking s =
           Some (Inl (CommandFailedError
                        (''No process '' @ [CHR 0x22] @ process_name @ [CHR 0x22]) []),
                 s\<lparr>world := w', calls := calls s @ [CallShell ''ps'']\<rparr>)"
  using GetPidsImpl_ps [OF assms(1), of process_name] procs_pids_of_no_match [OF assms(2)]
  by (simp add: KillAll_def)

theorem KillAll_no_process_witness:
  "adb_Shell scripted ''ps'' (world (init [(''ps'', Inr ps_other)])) = (Inr ps_other, []) \<and>
   list_all (\<lambda>line. \<not> name_field_matches ''com.example.app'' line) (splitlines ps_other) \<and>
   KillAll scripted ''com.example.app'' 9 False False (init [(''ps'', Inr ps_other)]) =
     Some (Inl (CommandFailedError (''No process '' @ [CHR 0x22] @ ''com.example.app'' @ [CHR 0x22]) []),
           \<lparr>cache = Map.empty, commands_installed = None, world = [],
            calls = [CallShell ''ps'']\<rparr>)"
proof -
  have h1: "adb_Shell scripted ''ps'' (world (init [(''ps'', Inr ps_other)])) = (Inr ps_other, [])"
    by (simp add: scripted_defs)
  have h2: "\<forall>line \<in> set (splitlines ps_other). \<not> name_field_matches ''com.example.app'' line"
    by (simp add: ps_other_def JoinLines_def splitlines_def name_field_matches_def split_ws_def
        is_space_def startswith_def)
  from KillAll_no_process [OF h1 h2, of 9 False False] h1 h2
  show ?thesis by (simp add: init_def list_all_iff)
qed

text \<open>
  Claim C4 fails on the code when two matching processes have the same name:
  \<^verbatim>\<open>procs_pids\<close> is keyed by the name, so the second process replaces the first. On the
  listing \<^const>\<open>ps_twice\<close> (processes 100 and 200, both \<^verbatim>\<open>com.example.app\<close>) the one
  kill command is \<^verbatim>\<open>kill -9 200\<close> and the call returns 1.
\<close>

theorem KillAll_same_name_kills_one:
  "KillAll scripted ''com.example.app'' 9 False False
     (init [(''ps'', Inr ps_twice), (''kill -9 200'', Inr [])]) =
     Some (Inr 1,
           \<lparr>cache = Map.empty, commands_installed = None, world = [],
            calls = [CallShell ''ps'', CallShell ''kill -9 200'']\<rparr>)"
  by (simp add: KillAll_def GetPidsImpl_def procs_pids_of_def ps_entry_def ps_twice_def
      JoinLines_def split_ws_def is_space_def startswith_def str_int_def Let_def
      run_defs monad_defs scripted_defs)

section \<open>EnableRoot\<close>

text \<open>
  Claim C10 says that on a user build \<^verbatim>\<open>EnableRoot\<close> fails before touching the cache.
  \<^verbatim>\<open>IsUserBuild\<close> reads \<^verbatim>\<open>build_type\<close>, which is \<^verbatim>\<open>GetProp('ro.build.type',
  cache=True)\<close>: on a fresh session the failing call leaves the build type in the cache.
\<close>

theorem EnableRoot_user_build_counterexample:
  "fst (EnableRoot scripted (init [(''getprop ro.build.type'', Inr (''user'' @ [LF]))])) =
     Inl (CommandFailedError ''Cannot enable root in user builds.'' []) \<and>
   cache (init [(''getprop ro.build.type'', Inr (''user'' @ [LF]))]) ''_prop:ro.build.type'' = None \<and>
   cache (snd (EnableRoot scripted (init [(''getprop ro.build.type'', Inr (''user'' @ [LF]))])))
     ''_prop:ro.build.type'' = Some (CStr ''user'')"
  by (simp add: EnableRoot_def IsUserBuild_def build_type_def GetProp_def Let_def
      run_defs monad_defs scripted_defs)

text \<open>
  Claim C10, amended. Let the build type be read as \<open>v\<close>, leaving the state \<open>sa\<close>. The
  read changes no cache key but \<^verbatim>\<open>_prop:ro.build.type\<close>. On a build other than
  \<^verbatim>\<open>user\<close>, \<^verbatim>\<open>needs_su\<close> is deleted and then \<^verbatim>\<open>adb.Root()\<close> is called: the cache
  after the call is that of \<open>sa\<close> without \<^verbatim>\<open>needs_su\<close>, whether \<^verbatim>\<open>Root\<close> and
  \<^verbatim>\<open>WaitForDevice\<close> succeed or raise. On a user build the call raises
  \<^verbatim>\<open>CommandFailedError\<close> in the state \<open>sa\<close>: \<^verbatim>\<open>needs_su\<close> is as it was and
  \<^verbatim>\<open>Root\<close> is not called.
\<close>

theorem EnableRoot_purges_needs_su:
  assumes "build_type ext s = (Inr v, sa)"
  shows "(v \<noteq> CStr ''user'' \<longrightarrow>
            cache (snd (EnableRoot ext s)) = (cache sa)(''needs_su'' := None) \<and>
            take (Suc (length (calls sa))) (calls (snd (EnableRoot ext s))) =
              calls sa @ [CallRoot]) \<and>
         (v = CStr ''user'' \<longrightarrow>
            EnableRoot ext s =
              (Inl (CommandFailedError ''Cannot enable root in user builds.'' []), sa)) \<and>
         (\<forall>k. k \<noteq> ''_prop:ro.build.type'' \<longrightarrow> cache sa k = cache s k)"
proof (intro conjI impI allI)
  assume v: "v \<noteq> CStr ''user''"
  let ?sb = "if cache sa ''needs_su'' \<noteq> None
             then sa\<lparr>cache := (cache sa)(''needs_su'' := None)\<rparr> else sa"
  have cb: "cache ?sb = (cache sa)(''needs_su'' := None)"
    by (auto simp add: fun_eq_iff)
  have lb: "calls ?sb = calls sa" by simp
  have e: "EnableRoot ext s =
      bindM (adb CallRoot (adb_Root ext)) (\<lambda>u. adb CallWaitForDevice (adb_WaitForDevice ext)) ?sb"
    using assms v
    by (simp add: EnableRoot_def IsUserBuild_def bindM_def returnM_def modify_def)
  obtain r sc where r: "adb CallRoot (adb_Root ext) ?sb = (r, sc)"
    by (cases "adb CallRoot (adb_Root ext) ?sb")
  have cc: "cache sc = cache ?sb" and lc: "calls sc = calls ?sb @ [CallRoot]"
    using adb_cache [of CallRoot "adb_Root ext" ?sb] adb_calls [of CallRoot "adb_Root ext" ?sb] r
    by simp_all
  show "cache (snd (EnableRoot ext s)) = (cache sa)(''needs_su'' := None)"
    unfolding e using r cc cb
    by (cases r) (simp_all add: bindM_def adb_cache del: fun_upd_apply)
  show "take (Suc (length (calls sa))) (calls (snd (EnableRoot ext s))) = calls sa @ [CallRoot]"
    unfolding e using r lc lb
    by (cases r) (simp_all add: bindM_def adb_calls)
next
  assume "v = CStr ''user''"
  with assms show "EnableRoot ext s =
      (Inl (CommandFailedError ''Cannot enable root in user builds.'' []), sa)"
    by (simp add: EnableRoot_def IsUserBuild_def bindM_def returnM_def raiseM_def)
next
  fix k :: string
  assume "k \<noteq> ''_prop:ro.build.type''"
  then show "cache sa k = cache s k"
    using GetProp_frame [of k "''ro.build.type''" ext True s] assms
    by (simp add: build_type_def)
qed

theorem EnableRoot_purges_needs_su_witness:
  "fst (build_type no_root userdebug_session) = Inr (CStr ''userdebug'') \<and>
   cache userdebug_session ''needs_su'' = Some (CBool True) \<and>
   fst (EnableRoot no_root userdebug_session) = Inl DeviceUnreachableError \<and>
   cache (snd (EnableRoot no_root userdebug_session)) ''needs_su'' = None \<and>
   calls (snd (EnableRoot no_root userdebug_session)) =
     [CallShell ''getprop ro.build.type'', CallRoot] \<and>
   fst (build_type scripted user_session) = Inr (CStr ''user'') \<and>
   fst (EnableRoot scripted user_session) =
     Inl (CommandFailedError ''Cannot enable root in user builds.'' []) \<and>
   cache (snd (EnableRoot scripted user_session)) ''needs_su'' = Some (CBool True) \<and>
   calls (snd (EnableRoot scripted user_session)) = [CallShell ''getprop ro.build.type'']"
proof -
  have b1: "fst (build_type no_root userdebug_session) = Inr (CStr ''userdebug'')"
    and c1: "cache (snd (build_type no_root userdebug_session)) ''needs_su'' = Some (CBool True)"
    and l1: "calls (snd (build_type no_root userdebug_session)) = [CallShell ''getprop ro.build.type'']"
    by (simp_all add: build_type_def GetProp_def Let_def no_root_def userdebug_session_def
        run_defs monad_defs scripted_defs)
  have h1: "build_type no_root userdebug_session =
      (Inr (CStr ''userdebug''), snd (build_type no_root userdebug_session))"
    using b1 by (metis prod.collapse)
  have f1: "fst (EnableRoot no_root userdebug_session) = Inl DeviceUnreachableError"
    by (simp add: EnableRoot_def IsUserBuild_def build_type_def GetProp_def Let_def no_root_def
        userdebug_session_def run_defs monad_defs scripted_defs)
  have b2: "fst (build_type scripted user_session) = Inr (CStr ''user'')"
    and c2: "cache (snd (build_type scripted user_session)) ''needs_su'' = Some (CBool True)"
    and l2: "calls (snd (build_type scripted user_session)) = [CallShell ''getprop ro.build.type'']"
    by (simp_all add: build_type_def GetProp_def Let_def user_session_def
        run_defs monad_defs scripted_defs)
  have h2: "build_type scripted user_session =
      (Inr (CStr ''user''), snd (build_type scripted user_session))"
    using b2 by (metis prod.collapse)
  have u: "cache userdebug_session ''needs_su'' = Some (CBool True)"
    by (simp add: userdebug_session_def)
  from EnableRoot_purges_needs_su [OF h1]
  have r1: "cache (snd (EnableRoot no_root userdebug_session)) ''needs_su'' = None"
    by simp
  have r1'': "calls (snd (EnableRoot no_root userdebug_session)) =
        [CallShell ''getprop ro.build.type'', CallRoot]"
    by (simp add: EnableRoot_def IsUserBuild_def build_type_def GetProp_def Let_def no_root_def
        userdebug_session_def run_defs monad_defs scripted_defs)
  from EnableRoot_purges_needs_su [OF h2]
  have r2: "EnableRoot scripted user_session =
      (Inl (CommandFailedError ''Cannot enable root in user builds.'' []),
       snd (build_type scripted user_session))"
    by simp
  from b1 u f1 r1 r1'' b2 r2 c2 l2 show ?thesis by simp
qed

section \<open>ReadFile and WriteFile: which way a file is read\<close>








































section \<open>WriteFile followed by ReadFile\<close>







section \<open>The changed files\<close>

lemma device_tuple_dict_iff:
  assumes "distinct (map snd ds)"
  shows "(device_tuple_dict ds dp = Some h) = ((h, dp) \<in> set ds)"
proof -
  have d: "distinct (map fst (rev (map (\<lambda>(h, p). (p, h)) ds)))"
    using assms by (simp add: rev_map [symmetric] case_prod_unfold comp_def)
  have "(device_tuple_dict ds dp = Some h) = ((dp, h) \<in> set (rev (map (\<lambda>(h, p). (p, h)) ds)))"
    unfolding device_tuple_dict_def using d by (rule map_of_eq_Some_iff)
  also have "\<dots> = ((h, dp) \<in> set ds)" by auto
  finally show ?thesis .
qed

lemma to_push_filter:
  "to_push ext rh rd dict hs =
     map (\<lambda>(hh, hp). (hp, rd @ ''/'' @ os_path_relpath ext hp rh))
       (filter (\<lambda>(hh, hp). dict (rd @ ''/'' @ os_path_relpath ext hp rh) \<noteq> Some hh) hs)"
  by (induction hs) (auto simp add: Let_def)

text \<open>
  Claim C5. Let the device's path resolve to the non-empty \<open>rd\<close>, let \<open>hs\<close> be the
  host's records and \<open>ds\<close> the device's records for the paths asked, one record per
  path. For a directory, \<^verbatim>\<open>_GetChangedFilesImpl\<close> returns, in the order of \<open>hs\<close>, one
  unit for each host file whose hash is not the hash of a device record at the
  corresponding path under \<open>rd\<close>, and no other unit. For a single file (which has its
  record in \<open>hs\<close>) it returns the one unit when there is no device record or the first
  device hash differs from the host's, and nothing otherwise.
\<close>

theorem GetChangedFilesImpl_exact:
  assumes "RunShellCommand ext (CmdArgs [''realpath'', device_path]) True None None False True s =
             (Inr (Line rd), sa)"
    and "rd \<noteq> []"
    and "CalculateHostMd5Sums ext [os_path_realpath ext host_path (world s)] (world sa) = Inr hs"
    and "CalculateDeviceMd5Sums ext
           (if os_path_isfile ext (os_path_realpath ext host_path (world s)) (world sa) then [rd]
            else map (\<lambda>(h, p). rd @ ''/''
                        @ os_path_relpath ext p (os_path_realpath ext host_path (world s))) hs)
           (world sa) = (Inr ds, wb)"
    and "distinct (map snd ds)"
    and "os_path_isfile ext host_path wb \<longrightarrow> hs \<noteq> []"
  shows "fst (GetChangedFilesImpl ext host_path device_path s) =
           Inr (if os_path_isfile ext host_path wb then
                  (if ds = [] \<or> fst (hd ds) \<noteq> fst (hd hs) then [(host_path, device_path)]
                   else [])
                else
                  map (\<lambda>(hh, hp). (hp, rd @ ''/''
                         @ os_path_relpath ext hp (os_path_realpath ext host_path (world s))))
                    (filter (\<lambda>(hh, hp). (hh, rd @ ''/''
                         @ os_path_relpath ext hp (os_path_realpath ext host_path (world s)))
                           \<notin> set ds) hs))"
proof -
  have f: "\<And>rh. filter (\<lambda>(hh, hp). device_tuple_dict ds (rd @ ''/'' @ os_path_relpath ext hp rh)
                \<noteq> Some hh) hs =
           filter (\<lambda>(hh, hp). (hh, rd @ ''/'' @ os_path_relpath ext hp rh) \<notin> set ds) hs"
    by (rule filter_cong) (auto simp add: device_tuple_dict_iff [OF assms(5)])
  have r: "fst (GetChangedFilesImpl ext host_path device_path s) =
           Inr (if os_path_isfile ext host_path wb then
                  (if ds = [] \<or> fst (hd ds) \<noteq> fst (hd hs) then [(host_path, device_path)]
                   else [])
                else to_push ext (os_path_realpath ext host_path (world s)) rd
                       (device_tuple_dict ds) hs)"
  proof (cases "os_path_isfile ext (os_path_realpath ext host_path (world s)) (world sa)")
    case True
    with assms(1,2,3,4,6) show ?thesis
      by (simp add: GetChangedFilesImpl_def bindM_def returnM_def raiseM_def
          get_def host_get_def world_op_def try_except_def)
  next
    case False
    with assms(1,2,3,4,6) show ?thesis
      by (simp add: GetChangedFilesImpl_def bindM_def returnM_def raiseM_def
          get_def host_get_def world_op_def try_except_def)
  qed
  show ?thesis unfolding r to_push_filter f by (rule refl)
qed

theorem GetChangedFilesImpl_exact_witness:
  "RunShellCommand dir_device (CmdArgs [''realpath'', ''/sdcard/A'']) True None None False True
      (session [(''realpath /sdcard/A'', Inr (''/sdcard/A'' @ [LF]))] []) =
     (Inr (Line ''/sdcard/A''), session [] [CallShell ''realpath /sdcard/A'']) \<and>
   fst (GetChangedFilesImpl dir_device ''/host/A'' ''/sdcard/A''
          (session [(''realpath /sdcard/A'', Inr (''/sdcard/A'' @ [LF]))] [])) =
     Inr [(''/host/A/b.txt'', ''/sdcard/A/b.txt'')] \<and>
   RunShellCommand file_device (CmdArgs [''realpath'', ''/sdcard/f'']) True None None False True
      (session [(''realpath /sdcard/f'', Inr (''/sdcard/f'' @ [LF]))] []) =
     (Inr (Line ''/sdcard/f''), session [] [CallShell ''realpath /sdcard/f'']) \<and>
   fst (GetChangedFilesImpl file_device ''/host/f'' ''/sdcard/f''
          (session [(''realpath /sdcard/f'', Inr (''/sdcard/f'' @ [LF]))] [])) =
     Inr [(''/host/f'', ''/sdcard/f'')]"
proof -
  let ?s = "session [(''realpath /sdcard/A'', Inr (''/sdcard/A'' @ [LF]))] []"
  let ?sa = "session [] [CallShell ''realpath /sdcard/A'']"
  let ?hs = "[(''H1'', ''/host/A/a.txt''), (''H2'', ''/host/A/b.txt'')]"
  let ?ds = "[(''H1'', ''/sdcard/A/a.txt''), (''H3'', ''/sdcard/A/c.txt'')]"
  have a1: "RunShellCommand dir_device (CmdArgs [''realpath'', ''/sdcard/A'']) True None None
      False True ?s = (Inr (Line ''/sdcard/A''), ?sa)"
    by (simp add: dir_device_def session_def run_defs monad_defs scripted_defs)
  have a2: "''/sdcard/A'' \<noteq> []" by simp
  have a3: "CalculateHostMd5Sums dir_device [os_path_realpath dir_device ''/host/A'' (world ?s)]
      (world ?sa) = Inr ?hs"
    by (simp add: dir_device_def scripted_def)
  have a4: "CalculateDeviceMd5Sums dir_device
           (if os_path_isfile dir_device (os_path_realpath dir_device ''/host/A'' (world ?s))
                 (world ?sa) then [''/sdcard/A'']
            else map (\<lambda>(h, p). ''/sdcard/A'' @ ''/''
                        @ os_path_relpath dir_device p
                            (os_path_realpath dir_device ''/host/A'' (world ?s))) ?hs)
           (world ?sa) = (Inr ?ds, [])"
    by (simp add: dir_device_def scripted_def session_def)
  have a5: "distinct (map snd ?ds)" by simp
  have a6: "os_path_isfile dir_device ''/host/A'' [] \<longrightarrow> ?hs \<noteq> []" by simp
  let ?t = "session [(''realpath /sdcard/f'', Inr (''/sdcard/f'' @ [LF]))] []"
  let ?ta = "session [] [CallShell ''realpath /sdcard/f'']"
  have b1: "RunShellCommand file_device (CmdArgs [''realpath'', ''/sdcard/f'']) True None None
      False True ?t = (Inr (Line ''/sdcard/f''), ?ta)"
    by (simp add: file_device_def session_def run_defs monad_defs scripted_defs)
  have b2: "''/sdcard/f'' \<noteq> []" by simp
  have b3: "CalculateHostMd5Sums file_device [os_path_realpath file_device ''/host/f'' (world ?t)]
      (world ?ta) = Inr [(''H1'', ''/host/f'')]"
    by (simp add: file_device_def scripted_def)
  have b4: "CalculateDeviceMd5Sums file_device
           (if os_path_isfile file_device (os_path_realpath file_device ''/host/f'' (world ?t))
                 (world ?ta) then [''/sdcard/f'']
            else map (\<lambda>(h, p). ''/sdcard/f'' @ ''/''
                        @ os_path_relpath file_device p
                            (os_path_realpath file_device ''/host/f'' (world ?t)))
                   [(''H1'', ''/host/f'')])
           (world ?ta) = (Inr [(''H0'', ''/sdcard/f'')], [])"
    by (simp add: file_device_def scripted_def session_def)
  have b5: "distinct (map snd [(''H0'', ''/sdcard/f'')])" by simp
  have b6: "os_path_isfile file_device ''/host/f'' [] \<longrightarrow> [(''H1'', ''/host/f'')] \<noteq> []"
    by simp
  from GetChangedFilesImpl_exact [OF a1 a2 a3 a4 a5 a6]
  have ra: "fst (GetChangedFilesImpl dir_device ''/host/A'' ''/sdcard/A'' ?s) =
     Inr [(''/host/A/b.txt'', ''/sdcard/A/b.txt'')]"
    by (simp add: dir_device_def scripted_def session_def)
  from GetChangedFilesImpl_exact [OF b1 b2 b3 b4 b5 b6]
  have rb: "fst (GetChangedFilesImpl file_device ''/host/f'' ''/sdcard/f'' ?t) =
     Inr [(''/host/f'', ''/sdcard/f'')]"
    by (simp add: file_device_def scripted_def)
  from a1 ra b1 rb show ?thesis by simp
qed

section \<open>The push strategy\<close>


lemma PushChangedFilesIndividually_calls:
  "fst (PushChangedFilesIndividually ext files s) = Inr () \<Longrightarrow>
   calls (snd (PushChangedFilesIndividually ext files s)) =
     calls s @ map (\<lambda>(h, d). CallPush h d) files"
proof (induction files arbitrary: s)
  case Nil
  then show ?case by (simp add: returnM_def)
next
  case (Cons f files)
  obtain h d where f: "f = (h, d)" by (cases f)
  obtain r sa where p: "Push ext h d s = (r, sa)" by (cases "Push ext h d s")
  have c: "calls sa = calls s @ [CallPush h d]"
    using p adb_calls [of "CallPush h d" "adb_Push ext h d" s] by (simp add: Push_def)
  show ?case
  proof (cases r)
    case (Inl e)
    with Cons.prems f p show ?thesis by (simp add: bindM_def)
  next
    case (Inr u)
    with Cons.prems f p have "fst (PushChangedFilesIndividually ext files sa) = Inr ()"
      by (simp add: bindM_def)
    from Cons.IH [OF this] Inr f p c show ?thesis by (simp add: bindM_def)
  qed
qed




end
